theory Spec2Isabelle
  imports Complex_Main "HOL-Library.Word"
begin

section \<open>Arithmetic conventions\<close>

text \<open>
  The firmware computes in \<^verbatim>\<open>float32_t\<close>. The embedding idealises a finite
  float as a \<^typ>\<open>real\<close>: rounding and signed zeros are left out. IEEE
  division does not trap: \<^verbatim>\<open>x / 0\<close> is an infinity or a NaN, which the code then
  stores. HOL's \<open>x / 0 = 0\<close> would hide that, so every division of the PID controller
  goes through \<open>fdiv\<close>, and a function that executes a division by zero returns
  \<open>None\<close>: the C function has then written a non-finite value (Inf or NaN) into its
  result. The vector functions of the rotation transformation also say where the float32
  computation underflows, overflows or depends on the rounding.
\<close>

definition fdiv :: "real \<Rightarrow> real \<Rightarrow> real option" where
  "fdiv x y = (if y = 0 then None else Some (x / y))"

section \<open>PID control (pid\_control.c)\<close>

record PIDController_TypeDef =
  K :: real
  Ti :: real
  Td :: real
  Tt :: real
  Beta :: real
  Gamma :: real
  N :: real
  P :: real
  I :: real
  D :: real
  preState :: real
  preRef :: real
  upperSatLimit :: real
  lowerSatLimit :: real
  ctrlSignalScaling :: real
  ctrlSignalOffset :: real
  useIntegralAction :: bool

text \<open>
  The form of the controller is chosen by the preprocessor:
  \<^verbatim>\<open>#if defined(PID_USE_CLASSIC_FORM) ... #elif defined(PID_USE_PARALLEL_FORM) ... #endif\<close>.
  A build that defines neither macro compiles neither branch.
\<close>

datatype pid_form = PID_USE_CLASSIC_FORM | PID_USE_PARALLEL_FORM | PID_USE_NO_FORM

text \<open>
  \<^verbatim>\<open>#define CONTROL_PERIOD (float32_t) FLIGHT_CONTROL_TASK_PERIOD/1000.0\<close>.
  The macro \<^verbatim>\<open>FLIGHT_CONTROL_TASK_PERIOD\<close> (milliseconds) is declared in
  flight\_control.h, which is not part of the sources at hand; it is a parameter of the
  model.
\<close>

definition CONTROL_PERIOD :: "real \<Rightarrow> real" where
  "CONTROL_PERIOD period = period / 1000"

text \<open>The integral part of the classic form: guarded by \<^verbatim>\<open>Ti > 0.0\<close>.\<close>

definition classic_integral ::
  "real \<Rightarrow> PIDController_TypeDef \<Rightarrow> real \<Rightarrow> real \<Rightarrow> PIDController_TypeDef option" where
  "classic_integral period c ctrlState refSignal =
     (if Ti c > 0
      then (case fdiv (K c * CONTROL_PERIOD period) (Ti c) of
              None \<Rightarrow> None
            | Some q \<Rightarrow> Some (c\<lparr>I := I c + q * (refSignal - ctrlState)\<rparr>))
      else Some c)"

definition classic_derivative ::
  "real \<Rightarrow> PIDController_TypeDef \<Rightarrow> real \<Rightarrow> real \<Rightarrow> PIDController_TypeDef option" where
  "classic_derivative period c ctrlState refSignal =
     (case fdiv (Td c) (Td c + N c * CONTROL_PERIOD period) of
        None \<Rightarrow> None
      | Some a \<Rightarrow>
          (case fdiv (K c * Td c * N c) (Td c + N c * CONTROL_PERIOD period) of
             None \<Rightarrow> None
           | Some b \<Rightarrow>
               Some (c\<lparr>D := a * D c
                 + b * (Gamma c * (refSignal - preRef c) - (ctrlState - preState c))\<rparr>)))"

text \<open>The integral part of the parallel form: guarded by \<^verbatim>\<open>useIntegralAction\<close>.\<close>

definition parallel_integral ::
  "real \<Rightarrow> PIDController_TypeDef \<Rightarrow> real \<Rightarrow> real \<Rightarrow> PIDController_TypeDef" where
  "parallel_integral period c ctrlState refSignal =
     (if useIntegralAction c
      then c\<lparr>I := I c + Ti c * CONTROL_PERIOD period * (refSignal - ctrlState)\<rparr>
      else c)"

definition parallel_derivative ::
  "real \<Rightarrow> PIDController_TypeDef \<Rightarrow> real \<Rightarrow> real \<Rightarrow> PIDController_TypeDef option" where
  "parallel_derivative period c ctrlState refSignal =
     (case fdiv (Td c) (Td c + N c * CONTROL_PERIOD period) of
        None \<Rightarrow> None
      | Some a \<Rightarrow>
          (case fdiv (Td c * N c) (Td c + N c * CONTROL_PERIOD period) of
             None \<Rightarrow> None
           | Some b \<Rightarrow>
               Some (c\<lparr>D := a * D c
                 + b * (Gamma c * (refSignal - preRef c) - (ctrlState - preState c))\<rparr>)))"

text \<open>The integral and derivative parts, as the build selects them.\<close>

definition integral_derivative ::
  "pid_form \<Rightarrow> real \<Rightarrow> PIDController_TypeDef \<Rightarrow> real \<Rightarrow> real \<Rightarrow> PIDController_TypeDef option" where
  "integral_derivative form period c ctrlState refSignal =
     (case form of
        PID_USE_CLASSIC_FORM \<Rightarrow>
          (case classic_integral period c ctrlState refSignal of
             None \<Rightarrow> None
           | Some c' \<Rightarrow> classic_derivative period c' ctrlState refSignal)
      | PID_USE_PARALLEL_FORM \<Rightarrow>
          parallel_derivative period (parallel_integral period c ctrlState refSignal)
            ctrlState refSignal
      | PID_USE_NO_FORM \<Rightarrow> Some c)"

text \<open>Saturation of the controller output.\<close>

definition saturate :: "PIDController_TypeDef \<Rightarrow> real \<Rightarrow> real" where
  "saturate c controlSignal =
     (if controlSignal < lowerSatLimit c then lowerSatLimit c
      else if controlSignal > upperSatLimit c then upperSatLimit c
      else controlSignal)"

text \<open>
  The back-calculation step:
  \<^verbatim>\<open>if(useIntegralAction) I += CONTROL_PERIOD/Tt*(tmpControlSignal-controlSignal);\<close>
\<close>

definition back_calculation ::
  "real \<Rightarrow> PIDController_TypeDef \<Rightarrow> real \<Rightarrow> real \<Rightarrow> PIDController_TypeDef option" where
  "back_calculation period c tmpControlSignal controlSignal =
     (if useIntegralAction c
      then (case fdiv (CONTROL_PERIOD period) (Tt c) of
              None \<Rightarrow> None
            | Some q \<Rightarrow> Some (c\<lparr>I := I c + q * (tmpControlSignal - controlSignal)\<rparr>))
      else Some c)"

text \<open>
  \<^verbatim>\<open>UpdatePIDControl\<close> mutates the controller through its pointer and returns the
  control signal; the model returns the updated controller with the signal.
\<close>

definition UpdatePIDControl ::
  "pid_form \<Rightarrow> real \<Rightarrow> PIDController_TypeDef \<Rightarrow> real \<Rightarrow> real
     \<Rightarrow> (PIDController_TypeDef \<times> real) option" where
  "UpdatePIDControl form period ctrlParams ctrlState refSignal =
     (let c1 = ctrlParams\<lparr>P := K ctrlParams * (Beta ctrlParams * refSignal - ctrlState)\<rparr>
      in case integral_derivative form period c1 ctrlState refSignal of
           None \<Rightarrow> None
         | Some c2 \<Rightarrow>
             (let tmpControlSignal =
                    (P c2 + I c2 + D c2 + ctrlSignalOffset c2) * ctrlSignalScaling c2;
                  controlSignal = saturate c2 tmpControlSignal
              in case back_calculation period c2 tmpControlSignal controlSignal of
                   None \<Rightarrow> None
                 | Some c3 \<Rightarrow>
                     Some (c3\<lparr>preState := ctrlState, preRef := refSignal\<rparr>, controlSignal)))"

text \<open>
  The periodic caller with a constant state and a constant reference: \<open>n\<close> control
  periods, collecting the returned control signals.
\<close>

fun UpdatePIDControl_cycles ::
  "pid_form \<Rightarrow> real \<Rightarrow> real \<Rightarrow> real \<Rightarrow> nat \<Rightarrow> PIDController_TypeDef
     \<Rightarrow> (PIDController_TypeDef \<times> real list) option" where
  "UpdatePIDControl_cycles form period ctrlState refSignal 0 c = Some (c, [])"
| "UpdatePIDControl_cycles form period ctrlState refSignal (Suc n) c =
     (case UpdatePIDControl form period c ctrlState refSignal of
        None \<Rightarrow> None
      | Some (c', u) \<Rightarrow>
          (case UpdatePIDControl_cycles form period ctrlState refSignal n c' of
             None \<Rightarrow> None
           | Some (c'', us) \<Rightarrow> Some (c'', u # us)))"

text \<open>
  Modelled from the spec: \<^verbatim>\<open>CtrlSignals_TypeDef\<close> is declared in flight\_control.h,
  which is not part of the sources at hand; the spec describes it as a struct of four
  control signals (thrust, roll moment, pitch moment, yaw moment), and pid\_control.c
  names the fields.
\<close>

record CtrlSignals_TypeDef =
  Thrust :: real
  RollMoment :: real
  PitchMoment :: real
  YawMoment :: real

text \<open>The four file-scoped controllers of pid\_control.c.\<close>

record pid_controllers =
  AltCtrl :: PIDController_TypeDef
  RollCtrl :: PIDController_TypeDef
  PitchCtrl :: PIDController_TypeDef
  YawCtrl :: PIDController_TypeDef

text \<open>
  The values \<^verbatim>\<open>UpdatePIDControlSignals\<close> reads from the state estimation and from the
  reference signal source (both outside pid\_control.c) are inputs of the model.
\<close>

record pid_inputs =
  GetRollAngle :: real
  GetRollAngleReferenceSignal :: real
  GetPitchAngle :: real
  GetPitchAngleReferenceSignal :: real
  GetYawAngle :: real
  GetYawAngularRateReferenceSignal :: real

text \<open>
  \<^verbatim>\<open>UpdatePIDControlSignals\<close>: the assignment of \<^verbatim>\<open>ctrlSignals->Thrust\<close> is commented
  out in the source (\<^verbatim>\<open>// TODO control altitude later\<close>); the three moments are
  assigned in the order roll, pitch, yaw.
\<close>

definition UpdatePIDControlSignals ::
  "pid_form \<Rightarrow> real \<Rightarrow> pid_inputs \<Rightarrow> pid_controllers \<Rightarrow> CtrlSignals_TypeDef
     \<Rightarrow> (pid_controllers \<times> CtrlSignals_TypeDef) option" where
  "UpdatePIDControlSignals form period inp ctrls ctrlSignals =
     (case UpdatePIDControl form period (RollCtrl ctrls)
             (GetRollAngle inp) (GetRollAngleReferenceSignal inp) of
        None \<Rightarrow> None
      | Some (roll', uRoll) \<Rightarrow>
          (case UpdatePIDControl form period (PitchCtrl ctrls)
                  (GetPitchAngle inp) (GetPitchAngleReferenceSignal inp) of
             None \<Rightarrow> None
           | Some (pitch', uPitch) \<Rightarrow>
               (case UpdatePIDControl form period (YawCtrl ctrls)
                       (GetYawAngle inp) (GetYawAngularRateReferenceSignal inp) of
                  None \<Rightarrow> None
                | Some (yaw', uYaw) \<Rightarrow>
                    Some (ctrls\<lparr>RollCtrl := roll', PitchCtrl := pitch', YawCtrl := yaw'\<rparr>,
                          ctrlSignals\<lparr>RollMoment := uRoll, PitchMoment := uPitch,
                            YawMoment := uYaw\<rparr>))))"

text \<open>
  A controller with unit parameters and saturation limits \<open>\<plusminus>1\<close>, the concrete input
  of the evaluations below (with \<^verbatim>\<open>FLIGHT_CONTROL_TASK_PERIOD\<close> = 10 ms).
\<close>

definition unit_controller :: PIDController_TypeDef where
  "unit_controller =
     \<lparr>K = 1, Ti = 1, Td = 1, Tt = 1, Beta = 1, Gamma = 0, N = 1, P = 0, I = 0, D = 0,
      preState = 0, preRef = 0, upperSatLimit = 1, lowerSatLimit = - 1,
      ctrlSignalScaling = 1, ctrlSignalOffset = 0, useIntegralAction = False\<rparr>"



section \<open>Rotation transformation (rotation\_transformation.c)\<close>

text \<open>
  A \<^verbatim>\<open>float32_t[3]\<close> vector is a triple of reals. The result of a float32
  computation is one of three things: \<open>Finite v\<close>, the float32 result is \<open>v\<close> up to
  rounding; \<open>NotFinite\<close>, a component of the result is an infinity or a NaN;
  \<open>OutOfModel\<close>, the real idealisation does not determine the float32 result (an
  intermediate value underflows or overflows, or the outcome depends on the rounding).
\<close>

type_synonym vec3 = "real \<times> real \<times> real"

datatype 'a float_result = Finite 'a | NotFinite | OutOfModel

definition bind_float :: "'a float_result \<Rightarrow> ('a \<Rightarrow> 'b float_result) \<Rightarrow> 'b float_result" where
  "bind_float r f = (case r of Finite v \<Rightarrow> f v | NotFinite \<Rightarrow> NotFinite | OutOfModel \<Rightarrow> OutOfModel)"

text \<open>
  A bound on the accumulated rounding error of the values passed to \<^verbatim>\<open>acos\<close>,
  \<^verbatim>\<open>asin\<close> and \<^verbatim>\<open>atan2\<close> (magnitudes about 1, a few float32 operations each).
\<close>

definition rounding_margin :: real where
  "rounding_margin = 1 / 2 ^ 16"

text \<open>
  \<^verbatim>\<open>acos\<close> and \<^verbatim>\<open>asin\<close> of the C library return NaN outside \<open>[-1, 1]\<close>. Within
  the rounding margin of \<open>\<plusminus>1\<close> the float32 argument may lie on either side.
\<close>

definition facos :: "real \<Rightarrow> real float_result" where
  "facos x =
     (if \<bar>x\<bar> \<le> 1 - rounding_margin then Finite (arccos x)
      else if 1 + rounding_margin < \<bar>x\<bar> then NotFinite
      else OutOfModel)"

definition fasin :: "real \<Rightarrow> real float_result" where
  "fasin x =
     (if \<bar>x\<bar> \<le> 1 - rounding_margin then Finite (arcsin x)
      else if 1 + rounding_margin < \<bar>x\<bar> then NotFinite
      else OutOfModel)"

text \<open>
  \<^verbatim>\<open>atan2(y, x)\<close> of the C library on the reals, and its float32 reading: near the
  origin and near the negative \<open>x\<close> axis the result depends on the rounding and on the
  sign of a zero.
\<close>

definition atan2 :: "real \<Rightarrow> real \<Rightarrow> real" where
  "atan2 y x =
     (if 0 < x then arctan (y / x)
      else if x < 0 then (if 0 \<le> y then arctan (y / x) + pi else arctan (y / x) - pi)
      else if 0 < y then pi / 2
      else if y < 0 then - (pi / 2)
      else 0)"

definition fatan2 :: "real \<Rightarrow> real \<Rightarrow> real float_result" where
  "fatan2 y x =
     (if \<bar>y\<bar> \<le> rounding_margin \<and> x \<le> rounding_margin then OutOfModel
      else Finite (atan2 y x))"

text \<open>
  The CMSIS-DSP vector functions, at the block size 3 the source passes:
  \<^verbatim>\<open>arm_dot_prod_f32\<close> sums the products of the components,
  \<^verbatim>\<open>arm_scale_f32\<close> multiplies every component by the scale.
\<close>

definition arm_dot_prod_f32 :: "vec3 \<Rightarrow> vec3 \<Rightarrow> real" where
  "arm_dot_prod_f32 a b =
     (case a of (a0, a1, a2) \<Rightarrow> case b of (b0, b1, b2) \<Rightarrow> a0 * b0 + a1 * b1 + a2 * b2)"

definition arm_scale_f32 :: "vec3 \<Rightarrow> real \<Rightarrow> vec3" where
  "arm_scale_f32 src scale = (case src of (s0, s1, s2) \<Rightarrow> (s0 * scale, s1 * scale, s2 * scale))"

definition Vector3DCrossProduct :: "vec3 \<Rightarrow> vec3 \<Rightarrow> vec3" where
  "Vector3DCrossProduct srcVector1 srcVector2 =
     (case srcVector1 of (a0, a1, a2) \<Rightarrow> case srcVector2 of (b0, b1, b2) \<Rightarrow>
        (a1 * b2 - a2 * b1, a2 * b0 - a0 * b2, a0 * b1 - a1 * b0))"

text \<open>
  \<^verbatim>\<open>Vector3DNormalize\<close> computes the squared norm, its square root, \<^verbatim>\<open>1.0/norm\<close>
  and the scaled vector, with no check of the norm. In float32:
  \<^item> a squared norm below \<open>2^-150\<close>: every product rounds to zero, the norm is 0,
    \<^verbatim>\<open>1.0/norm\<close> is \<open>+Inf\<close> and every component of the destination is \<open>\<plusminus>Inf\<close> or
    NaN (the zero vector is the case where all are NaN);
  \<^item> a squared norm from \<open>2^129\<close>: the sum is \<open>+Inf\<close>, so is the norm,
    \<^verbatim>\<open>1.0/norm\<close> is 0 and the destination is the zero vector;
  \<^item> a squared norm in the normal range \<open>[2^-126, 2^127]\<close>: the real computation, up
    to rounding;
  \<^item> otherwise the result depends on the rounding of the products.
\<close>

definition Vector3DNormalize :: "vec3 \<Rightarrow> vec3 float_result" where
  "Vector3DNormalize srcVector =
     (let norm2 = arm_dot_prod_f32 srcVector srcVector;
          norm = sqrt norm2
      in if norm2 < 1 / 2 ^ 150 then NotFinite
         else if 2 ^ 129 \<le> norm2 then Finite (arm_scale_f32 srcVector 0)
         else if 1 / 2 ^ 126 \<le> norm2 \<and> norm2 \<le> 2 ^ 127
           then Finite (arm_scale_f32 srcVector (1 / norm))
         else OutOfModel)"

definition GetAttitudeFromMagnetometer :: "vec3 \<Rightarrow> vec3 \<Rightarrow> vec3 float_result" where
  "GetAttitudeFromMagnetometer bodyMagneticReadings inertialMagneticVector =
     bind_float (Vector3DNormalize bodyMagneticReadings) (\<lambda>bodyMagneticNormalized.
     bind_float (Vector3DNormalize inertialMagneticVector) (\<lambda>inertialMagneticNormalized.
     (case Vector3DCrossProduct bodyMagneticNormalized inertialMagneticNormalized of
        (v0, v1, v2) \<Rightarrow>
     bind_float (facos (arm_dot_prod_f32 bodyMagneticNormalized inertialMagneticNormalized))
       (\<lambda>rotationAngle.
          (let cosAngle = cos rotationAngle;
               sinAngle = sin rotationAngle;
               r11 = cosAngle + v0 * v0 * (1 - cosAngle);
               r12 = v0 * v1 * (1 - cosAngle) - v2 * sinAngle;
               r13 = v0 * v2 * (1 - cosAngle) + v1 * sinAngle;
               r23 = v1 * v2 * (1 - cosAngle) - v0 * sinAngle;
               r33 = cosAngle + v2 * v2 * (1 - cosAngle)
           in bind_float (fatan2 r23 r33) (\<lambda>roll.
              bind_float (fasin (- r13)) (\<lambda>pitch.
              bind_float (fatan2 r12 r11) (\<lambda>yaw. Finite (roll, pitch, yaw)))))))))"

text \<open>
  The matrices. \<^verbatim>\<open>arm_mat_init_f32\<close> of CMSIS-DSP stores the dimensions and the
  \<^emph>\<open>pointer\<close> to the data; the source passes the automatic arrays \<^verbatim>\<open>DCMUpdate\<close> (of
  \<^verbatim>\<open>UpdateRotationMatrix\<close>) and \<^verbatim>\<open>DCMInvInit\<close> (of \<^verbatim>\<open>InitRotationMatrix\<close>). The
  memory maps each of the two arrays to its contents while the function that declares it
  runs, and to \<open>None\<close> once its lifetime has ended. A pointer is \<open>None\<close> (\<^verbatim>\<open>NULL\<close>) or
  an array. An access through \<^verbatim>\<open>NULL\<close>, to an array whose lifetime has ended, or
  beyond the end of an array is undefined behaviour: the function that makes it has the
  result \<open>None\<close>.
\<close>

datatype array = DCMUpdate_array | DCMInvInit_array

type_synonym memory = "array \<Rightarrow> real list option"

record arm_matrix_instance_f32 =
  numRows :: nat
  numCols :: nat
  pData :: "array option"

definition load_cell :: "memory \<Rightarrow> array option \<Rightarrow> nat \<Rightarrow> real option" where
  "load_cell m p k =
     (case p of
        None \<Rightarrow> None
      | Some a \<Rightarrow>
          (case m a of
             None \<Rightarrow> None
           | Some xs \<Rightarrow> if k < length xs then Some (xs ! k) else None))"

definition store_cell :: "memory \<Rightarrow> array option \<Rightarrow> nat \<Rightarrow> real \<Rightarrow> memory option" where
  "store_cell m p k v =
     (case p of
        None \<Rightarrow> None
      | Some a \<Rightarrow>
          (case m a of
             None \<Rightarrow> None
           | Some xs \<Rightarrow> if k < length xs then Some (m(a \<mapsto> xs[k := v])) else None))"

definition arm_mat_init_f32 ::
  "arm_matrix_instance_f32 \<Rightarrow> nat \<Rightarrow> nat \<Rightarrow> array option \<Rightarrow> arm_matrix_instance_f32" where
  "arm_mat_init_f32 S nRows nColumns p = S\<lparr>numRows := nRows, numCols := nColumns, pData := p\<rparr>"

text \<open>
  \<^verbatim>\<open>arm_mat_trans_f32\<close> of CMSIS-DSP: for every row \<open>i\<close> and column \<open>j\<close> of the source,
  in this order, \<^verbatim>\<open>pOut[j*nRows + i] = pIn[i*nCols + j]\<close>, read and written through
  the two pointers. A build with \<^verbatim>\<open>ARM_MATH_MATRIX_CHECK\<close> first compares the dimensions
  and writes nothing when they do not fit; the macro is a parameter of the model. The
  source ignores the returned status.
\<close>

fun trans_loop ::
  "(nat \<times> nat) list \<Rightarrow> array option \<Rightarrow> array option \<Rightarrow> nat \<Rightarrow> nat \<Rightarrow> memory
     \<Rightarrow> memory option" where
  "trans_loop [] pIn pOut nRows nCols m = Some m"
| "trans_loop ((i, j) # ijs) pIn pOut nRows nCols m =
     (case load_cell m pIn (i * nCols + j) of
        None \<Rightarrow> None
      | Some v \<Rightarrow>
          (case store_cell m pOut (j * nRows + i) v of
             None \<Rightarrow> None
           | Some m' \<Rightarrow> trans_loop ijs pIn pOut nRows nCols m'))"

definition arm_mat_trans_f32 ::
  "bool \<Rightarrow> arm_matrix_instance_f32 \<Rightarrow> arm_matrix_instance_f32 \<Rightarrow> memory \<Rightarrow> memory option" where
  "arm_mat_trans_f32 ARM_MATH_MATRIX_CHECK pSrc pDst m =
     (if ARM_MATH_MATRIX_CHECK
         \<and> (numRows pSrc \<noteq> numCols pDst \<or> numCols pSrc \<noteq> numRows pDst)
      then Some m
      else trans_loop
             (concat (map (\<lambda>i. map (\<lambda>j. (i, j)) [0..<numCols pSrc]) [0..<numRows pSrc]))
             (pData pSrc) (pData pDst) (numRows pSrc) (numCols pSrc) m)"

text \<open>The two file-scoped matrices, and the memory of the automatic arrays.\<close>

record rotation_state =
  DCM :: arm_matrix_instance_f32
  DCMInv :: arm_matrix_instance_f32
  memory :: memory

text \<open>
  The matrix a C read through \<open>pData\<close> finds: none when the pointer is \<^verbatim>\<open>NULL\<close> or the
  array's lifetime has ended.
\<close>

definition matrix_data :: "rotation_state \<Rightarrow> arm_matrix_instance_f32 \<Rightarrow> real list option" where
  "matrix_data s S = (case pData S of None \<Rightarrow> None | Some a \<Rightarrow> memory s a)"

text \<open>The initialiser of the automatic array \<^verbatim>\<open>DCMUpdate\<close>.\<close>

definition DCMUpdate :: "real \<Rightarrow> real \<Rightarrow> real \<Rightarrow> real list" where
  "DCMUpdate roll pitch yaw =
     [cos pitch * cos yaw, cos pitch * sin yaw, - sin pitch,
      - cos roll * sin yaw + sin roll * sin pitch * cos yaw,
        cos roll * cos yaw + sin roll * sin pitch * sin yaw, sin roll * cos pitch,
      sin roll * sin yaw + cos roll * sin pitch * cos yaw,
        - sin roll * cos yaw + cos roll * sin pitch * sin yaw, cos roll * cos pitch]"

text \<open>
  \<^verbatim>\<open>UpdateRotationMatrix\<close>: the array \<^verbatim>\<open>DCMUpdate\<close> lives from the entry to the
  return of the function.
\<close>

definition UpdateRotationMatrix ::
  "bool \<Rightarrow> real \<Rightarrow> real \<Rightarrow> real \<Rightarrow> rotation_state \<Rightarrow> rotation_state option" where
  "UpdateRotationMatrix ARM_MATH_MATRIX_CHECK roll pitch yaw s =
     (let m1 = (memory s)(DCMUpdate_array \<mapsto> DCMUpdate roll pitch yaw);
          dcm = arm_mat_init_f32 (DCM s) 3 3 (Some DCMUpdate_array)
      in case arm_mat_trans_f32 ARM_MATH_MATRIX_CHECK dcm (DCMInv s) m1 of
           None \<Rightarrow> None
         | Some m2 \<Rightarrow> Some (s\<lparr>DCM := dcm, memory := m2(DCMUpdate_array := None)\<rparr>))"

text \<open>The initialiser of the automatic array \<^verbatim>\<open>DCMInvInit\<close>, as the source writes it.\<close>

definition DCMInvInit :: "real list" where
  "DCMInvInit = [1, 0, 1,
                 0, 1, 0,
                 0, 0, 1]"

text \<open>
  \<^verbatim>\<open>InitRotationMatrix\<close>: the array \<^verbatim>\<open>DCMInvInit\<close> lives from the entry to the
  return of the function, the call of \<^verbatim>\<open>UpdateRotationMatrix\<close> included.
\<close>

definition InitRotationMatrix :: "bool \<Rightarrow> rotation_state \<Rightarrow> rotation_state option" where
  "InitRotationMatrix ARM_MATH_MATRIX_CHECK s =
     (let s1 = s\<lparr>DCMInv := arm_mat_init_f32 (DCMInv s) 3 3 (Some DCMInvInit_array),
                 memory := (memory s)(DCMInvInit_array \<mapsto> DCMInvInit)\<rparr>
      in case UpdateRotationMatrix ARM_MATH_MATRIX_CHECK 0 0 0 s1 of
           None \<Rightarrow> None
         | Some s2 \<Rightarrow> Some (s2\<lparr>memory := (memory s2)(DCMInvInit_array := None)\<rparr>))"

text \<open>
  The state at program start: the two file-scoped structs are zero-initialised and no
  automatic array is alive.
\<close>

definition rotation_start :: rotation_state where
  "rotation_start =
     \<lparr>DCM = \<lparr>numRows = 0, numCols = 0, pData = None\<rparr>,
      DCMInv = \<lparr>numRows = 0, numCols = 0, pData = None\<rparr>,
      memory = (\<lambda>a. None)\<rparr>"

text \<open>
  The words of the spec about 3x3 matrices, on row-major data: the identity, the
  transpose, the product, and the rotation of a vector by a matrix.
\<close>

definition identity3 :: "real list" where
  "identity3 = [1, 0, 0,
                0, 1, 0,
                0, 0, 1]"

definition transpose3 :: "real list \<Rightarrow> real list" where
  "transpose3 m = [m ! 0, m ! 3, m ! 6,
                   m ! 1, m ! 4, m ! 7,
                   m ! 2, m ! 5, m ! 8]"

definition product3 :: "real list \<Rightarrow> real list \<Rightarrow> real list" where
  "product3 a b =
     [a ! 0 * b ! 0 + a ! 1 * b ! 3 + a ! 2 * b ! 6,
      a ! 0 * b ! 1 + a ! 1 * b ! 4 + a ! 2 * b ! 7,
      a ! 0 * b ! 2 + a ! 1 * b ! 5 + a ! 2 * b ! 8,
      a ! 3 * b ! 0 + a ! 4 * b ! 3 + a ! 5 * b ! 6,
      a ! 3 * b ! 1 + a ! 4 * b ! 4 + a ! 5 * b ! 7,
      a ! 3 * b ! 2 + a ! 4 * b ! 5 + a ! 5 * b ! 8,
      a ! 6 * b ! 0 + a ! 7 * b ! 3 + a ! 8 * b ! 6,
      a ! 6 * b ! 1 + a ! 7 * b ! 4 + a ! 8 * b ! 7,
      a ! 6 * b ! 2 + a ! 7 * b ! 5 + a ! 8 * b ! 8]"

definition rotate3 :: "real list \<Rightarrow> vec3 \<Rightarrow> vec3" where
  "rotate3 m v =
     (case v of (x, y, z) \<Rightarrow>
        (m ! 0 * x + m ! 1 * y + m ! 2 * z,
         m ! 3 * x + m ! 4 * y + m ! 5 * z,
         m ! 6 * x + m ! 7 * y + m ! 8 * z))"

section \<open>Motor control (motor\_control.c)\<close>

record MotorControlValues_TypeDef =
  Motor1 :: "16 word"
  Motor2 :: "16 word"
  Motor3 :: "16 word"
  Motor4 :: "16 word"

text \<open>
  The channel macros and the return type are declared in motor\_control.h, which is not
  part of the sources at hand: the four channels are four names, the return type has the
  two values the source uses.
\<close>

datatype motor_channel = MOTOR1_CHANNEL | MOTOR2_CHANNEL | MOTOR3_CHANNEL | MOTOR4_CHANNEL

datatype MotorControlErrorStatus = MOTORCTRL_OK | MOTORCTRL_ERROR

text \<open>
  The state of motor\_control.c: the motor values, the compare registers of the timer
  (written by \<^verbatim>\<open>__HAL_TIM_SetCompare\<close>), the handle of the print sampling task
  (\<open>None\<close> is \<^verbatim>\<open>NULL\<close>) and the tasks the kernel holds (changed by
  \<^verbatim>\<open>vTaskDelete\<close>).
\<close>

record motor_control_state =
  MotorControlValues :: MotorControlValues_TypeDef
  CCR :: "motor_channel \<Rightarrow> 32 word"
  MotorControlPrintSamplingTaskHandle :: "nat option"
  kernel_tasks :: "nat set"

text \<open>
  \<^verbatim>\<open>ESC_MIN_OUTPUT + ctrlVal * (ESC_MAX_OUTPUT - ESC_MIN_OUTPUT) / UINT16_MAX\<close>, in
  32-bit unsigned arithmetic. The two macros are declared in motor\_control.h and are
  parameters of the model.
\<close>

definition ccrVal :: "32 word \<Rightarrow> 32 word \<Rightarrow> 16 word \<Rightarrow> 32 word" where
  "ccrVal ESC_MIN_OUTPUT ESC_MAX_OUTPUT ctrlVal =
     ESC_MIN_OUTPUT + (ucast ctrlVal * (ESC_MAX_OUTPUT - ESC_MIN_OUTPUT)) div 65535"

definition HAL_TIM_SetCompare ::
  "motor_channel \<Rightarrow> 32 word \<Rightarrow> motor_control_state \<Rightarrow> motor_control_state" where
  "HAL_TIM_SetCompare channel compare s = s\<lparr>CCR := (CCR s)(channel := compare)\<rparr>"

text \<open>\<^verbatim>\<open>SetMotor1\<close> casts the compare value to \<^verbatim>\<open>uint16_t\<close>; the other three do not.\<close>

definition SetMotor1 :: "32 word \<Rightarrow> 32 word \<Rightarrow> 16 word \<Rightarrow> motor_control_state \<Rightarrow> motor_control_state" where
  "SetMotor1 ESC_MIN_OUTPUT ESC_MAX_OUTPUT ctrlVal s =
     HAL_TIM_SetCompare MOTOR1_CHANNEL
       (ucast (ucast (ccrVal ESC_MIN_OUTPUT ESC_MAX_OUTPUT ctrlVal) :: 16 word))
       (s\<lparr>MotorControlValues := (MotorControlValues s)\<lparr>Motor1 := ctrlVal\<rparr>\<rparr>)"

definition SetMotor2 :: "32 word \<Rightarrow> 32 word \<Rightarrow> 16 word \<Rightarrow> motor_control_state \<Rightarrow> motor_control_state" where
  "SetMotor2 ESC_MIN_OUTPUT ESC_MAX_OUTPUT ctrlVal s =
     HAL_TIM_SetCompare MOTOR2_CHANNEL (ccrVal ESC_MIN_OUTPUT ESC_MAX_OUTPUT ctrlVal)
       (s\<lparr>MotorControlValues := (MotorControlValues s)\<lparr>Motor2 := ctrlVal\<rparr>\<rparr>)"

definition SetMotor3 :: "32 word \<Rightarrow> 32 word \<Rightarrow> 16 word \<Rightarrow> motor_control_state \<Rightarrow> motor_control_state" where
  "SetMotor3 ESC_MIN_OUTPUT ESC_MAX_OUTPUT ctrlVal s =
     HAL_TIM_SetCompare MOTOR3_CHANNEL (ccrVal ESC_MIN_OUTPUT ESC_MAX_OUTPUT ctrlVal)
       (s\<lparr>MotorControlValues := (MotorControlValues s)\<lparr>Motor3 := ctrlVal\<rparr>\<rparr>)"

definition SetMotor4 :: "32 word \<Rightarrow> 32 word \<Rightarrow> 16 word \<Rightarrow> motor_control_state \<Rightarrow> motor_control_state" where
  "SetMotor4 ESC_MIN_OUTPUT ESC_MAX_OUTPUT ctrlVal s =
     HAL_TIM_SetCompare MOTOR4_CHANNEL (ccrVal ESC_MIN_OUTPUT ESC_MAX_OUTPUT ctrlVal)
       (s\<lparr>MotorControlValues := (MotorControlValues s)\<lparr>Motor4 := ctrlVal\<rparr>\<rparr>)"

text \<open>
  A call of a function either returns to its caller, with a state and a value, or does
  not return and leaves a state.
\<close>

datatype 'a call_outcome = Returns motor_control_state 'a | NoReturn motor_control_state

text \<open>
  \<^verbatim>\<open>vTaskDelete\<close> of FreeRTOS (not part of the sources at hand) removes the task from
  the kernel. When the task deleted is the task that makes the call, the kernel switches
  to another task and the call does not return. \<open>caller\<close> is the running task.
\<close>

definition vTaskDelete :: "nat \<Rightarrow> nat \<Rightarrow> motor_control_state \<Rightarrow> unit call_outcome" where
  "vTaskDelete caller h s =
     (if h = caller then NoReturn (s\<lparr>kernel_tasks := kernel_tasks s - {h}\<rparr>)
      else Returns (s\<lparr>kernel_tasks := kernel_tasks s - {h}\<rparr>) ())"

definition StopMotorControlSamplingTask ::
  "nat \<Rightarrow> motor_control_state \<Rightarrow> MotorControlErrorStatus call_outcome" where
  "StopMotorControlSamplingTask caller s =
     (case MotorControlPrintSamplingTaskHandle s of
        Some h \<Rightarrow>
          (case vTaskDelete caller h s of
             NoReturn s' \<Rightarrow> NoReturn s'
           | Returns s' u \<Rightarrow>
               Returns (s'\<lparr>MotorControlPrintSamplingTaskHandle := None\<rparr>) MOTORCTRL_OK)
      | None \<Rightarrow> Returns s MOTORCTRL_ERROR)"

section \<open>Properties of the PID controller\<close>

lemmas pid_defs = UpdatePIDControl_def integral_derivative_def classic_integral_def
  classic_derivative_def parallel_integral_def parallel_derivative_def saturate_def
  back_calculation_def fdiv_def CONTROL_PERIOD_def

text \<open>
  The back-calculation adds \<open>CONTROL_PERIOD / Tt * (raw - saturated)\<close>: with a positive
  period and tracking time the integral part moves up when the raw signal is above the
  upper limit and down when it is below the lower limit.
\<close>

lemma back_calculation_above:
  assumes "useIntegralAction c" "0 < period" "0 < Tt c"
    and "lowerSatLimit c \<le> upperSatLimit c" "upperSatLimit c < raw"
  shows "\<exists>c'. back_calculation period c raw (saturate c raw) = Some c' \<and> I c < I c'"
  using assms by (simp add: back_calculation_def saturate_def fdiv_def CONTROL_PERIOD_def)

lemma back_calculation_below:
  assumes "useIntegralAction c" "0 < period" "0 < Tt c" "raw < lowerSatLimit c"
  shows "\<exists>c'. back_calculation period c raw (saturate c raw) = Some c' \<and> I c' < I c"
  using assms
  by (simp add: back_calculation_def saturate_def fdiv_def CONTROL_PERIOD_def
      divide_less_0_iff mult_less_0_iff)

lemma windup_step:
  assumes "0 \<le> i"
  shows "UpdatePIDControl PID_USE_PARALLEL_FORM 10
      (unit_controller\<lparr>useIntegralAction := True, P := p, I := i, preRef := r\<rparr>) 0 100
    = Some (unit_controller\<lparr>useIntegralAction := True, P := 100,
              I := i + 1 + (100 + i) / 100, preRef := 100\<rparr>, 1)"
  using assms by (simp add: pid_defs unit_controller_def Let_def)

lemma windup_cycles:
  assumes "0 \<le> i"
  shows "\<exists>p' i' r'. UpdatePIDControl_cycles PID_USE_PARALLEL_FORM 10 0 100 n
        (unit_controller\<lparr>useIntegralAction := True, P := p, I := i, preRef := r\<rparr>)
      = Some (unit_controller\<lparr>useIntegralAction := True, P := p', I := i', preRef := r'\<rparr>,
              replicate n 1)
      \<and> i + 2 * real n \<le> i'"
  using assms
proof (induction n arbitrary: p i r)
  case 0
  then show ?case by auto
next
  case (Suc n)
  let ?i1 = "i + 1 + (100 + i) / 100"
  have i1: "0 \<le> ?i1" "i + 2 \<le> ?i1" using Suc.prems by simp_all
  from Suc.IH [OF i1(1), of 100 100] obtain p' i' r' where
    h: "UpdatePIDControl_cycles PID_USE_PARALLEL_FORM 10 0 100 n
          (unit_controller\<lparr>useIntegralAction := True, P := 100, I := ?i1, preRef := 100\<rparr>)
        = Some (unit_controller\<lparr>useIntegralAction := True, P := p', I := i', preRef := r'\<rparr>,
                replicate n 1)"
    and b: "?i1 + 2 * real n \<le> i'"
    by blast
  have b': "i + 2 * real (Suc n) \<le> i'"
  proof -
    have "i + 2 * real (Suc n) = (i + 2) + 2 * real n" by simp
    also have "\<dots> \<le> ?i1 + 2 * real n" using i1(2) by linarith
    finally show ?thesis using b by linarith
  qed
  have "UpdatePIDControl_cycles PID_USE_PARALLEL_FORM 10 0 100 (Suc n)
          (unit_controller\<lparr>useIntegralAction := True, P := p, I := i, preRef := r\<rparr>)
        = Some (unit_controller\<lparr>useIntegralAction := True, P := p', I := i', preRef := r'\<rparr>,
                replicate (Suc n) 1)"
    unfolding UpdatePIDControl_cycles.simps windup_step [OF Suc.prems] using h by simp
  then show ?case using b' by blast
qed

text \<open>
  C1 (the code departs from the claim). The claim: with integral action enabled, the
  back-calculation step pulls \<open>I\<close> back whenever the output saturates, so that a constant
  reference far beyond the limits leaves \<open>I\<close> bounded over arbitrarily many cycles.
  The code at the unit controller with integral action, state 0 and reference 100: the
  integration gives \<open>I = 1\<close>, the raw signal 101 is saturated to 1, and the
  back-calculation raises \<open>I\<close> to 2; over \<open>n\<close> such cycles every output is saturated
  and \<open>I\<close> is at least \<open>2 n\<close>.
\<close>

theorem back_calculation_winds_up:
  "UpdatePIDControl PID_USE_PARALLEL_FORM 10
      (unit_controller\<lparr>useIntegralAction := True\<rparr>) 0 100
    = Some (unit_controller\<lparr>useIntegralAction := True, P := 100, I := 2, preRef := 100\<rparr>, 1)
   \<and> (\<forall>n. \<exists>c. UpdatePIDControl_cycles PID_USE_PARALLEL_FORM 10 0 100 n
                 (unit_controller\<lparr>useIntegralAction := True\<rparr>) = Some (c, replicate n 1)
               \<and> 2 * real n \<le> I c)"
proof
  show "UpdatePIDControl PID_USE_PARALLEL_FORM 10
      (unit_controller\<lparr>useIntegralAction := True\<rparr>) 0 100
    = Some (unit_controller\<lparr>useIntegralAction := True, P := 100, I := 2, preRef := 100\<rparr>, 1)"
    by (simp add: pid_defs unit_controller_def Let_def)
next
  have e: "unit_controller\<lparr>useIntegralAction := True\<rparr>
      = unit_controller\<lparr>useIntegralAction := True, P := 0, I := 0, preRef := 0\<rparr>"
    by (simp add: unit_controller_def)
  show "\<forall>n. \<exists>c. UpdatePIDControl_cycles PID_USE_PARALLEL_FORM 10 0 100 n
                 (unit_controller\<lparr>useIntegralAction := True\<rparr>) = Some (c, replicate n 1)
               \<and> 2 * real n \<le> I c"
  proof
    fix n
    from windup_cycles [of 0 n 0 0] obtain p' i' r' where
      h: "UpdatePIDControl_cycles PID_USE_PARALLEL_FORM 10 0 100 n
            (unit_controller\<lparr>useIntegralAction := True, P := 0, I := 0, preRef := 0\<rparr>)
          = Some (unit_controller\<lparr>useIntegralAction := True, P := p', I := i', preRef := r'\<rparr>,
                  replicate n 1)"
      and b: "0 + 2 * real n \<le> i'"
      by auto
    have "2 * real n \<le> I (unit_controller\<lparr>useIntegralAction := True, P := p', I := i', preRef := r'\<rparr>)"
      using b by simp
    with h [folded e] show "\<exists>c. UpdatePIDControl_cycles PID_USE_PARALLEL_FORM 10 0 100 n
                 (unit_controller\<lparr>useIntegralAction := True\<rparr>) = Some (c, replicate n 1)
               \<and> 2 * real n \<le> I c"
      by blast
  qed
qed

text \<open>The parallel form leaves \<open>I\<close> alone when integral action is off.\<close>

lemma parallel_form_respects_flag:
  assumes "\<not> useIntegralAction c"
    and "UpdatePIDControl PID_USE_PARALLEL_FORM period c ctrlState refSignal = Some (c', u)"
  shows "I c' = I c"
  using assms by (auto simp: pid_defs Let_def split: option.splits if_splits)

text \<open>
  C5 (the code departs from the claim). The claim: \<open>I\<close> is accumulated only when
  \<open>useIntegralAction\<close> is true, in the classic-form and in the parallel-form build.
  The classic form tests \<^verbatim>\<open>Ti > 0.0\<close> instead of the flag: at the unit controller
  (integral action off, \<open>Ti = 1\<close>) with state 0 and reference 1 it changes \<open>I\<close> from 0
  to 1/100.
\<close>

theorem classic_form_ignores_flag:
  "UpdatePIDControl PID_USE_CLASSIC_FORM 10 unit_controller 0 1
    = Some (unit_controller\<lparr>P := 1, I := 1 / 100, preRef := 1\<rparr>, 1)"
  by (simp add: pid_defs unit_controller_def Let_def)

subsection \<open>Equilibrium\<close>















subsection \<open>The outbound control signals\<close>

text \<open>
  C3, as stated, fails: \<open>Thrust\<close> keeps its value from before the call, while the three
  moments are overwritten.
\<close>

theorem thrust_not_assigned:
  "map_option snd
     (UpdatePIDControlSignals PID_USE_PARALLEL_FORM 10
        \<lparr>GetRollAngle = 0, GetRollAngleReferenceSignal = 0, GetPitchAngle = 0,
         GetPitchAngleReferenceSignal = 0, GetYawAngle = 0,
         GetYawAngularRateReferenceSignal = 0\<rparr>
        \<lparr>AltCtrl = unit_controller, RollCtrl = unit_controller,
         PitchCtrl = unit_controller, YawCtrl = unit_controller\<rparr>
        \<lparr>Thrust = 5, RollMoment = 7, PitchMoment = 7, YawMoment = 7\<rparr>)
   = Some \<lparr>Thrust = 5, RollMoment = 0, PitchMoment = 0, YawMoment = 0\<rparr>"
proof -
  have u: "UpdatePIDControl PID_USE_PARALLEL_FORM 10 unit_controller 0 0
      = Some (unit_controller, 0)"
    by (simp add: pid_defs unit_controller_def Let_def)
  show ?thesis by (simp add: UpdatePIDControlSignals_def u)
qed

text \<open>
  C3 (amended). Every call to \<^verbatim>\<open>UpdatePIDControlSignals\<close> that stays finite assigns
  \<open>RollMoment\<close>, \<open>PitchMoment\<close> and \<open>YawMoment\<close> the control signals of the roll,
  pitch and yaw controllers, and leaves \<open>Thrust\<close> (and the altitude controller) as they
  were before the call.
\<close>

theorem UpdatePIDControlSignals_assigns_moments:
  assumes "UpdatePIDControl form period (RollCtrl ctrls)
             (GetRollAngle inp) (GetRollAngleReferenceSignal inp) = Some (roll', uRoll)"
    and "UpdatePIDControl form period (PitchCtrl ctrls)
             (GetPitchAngle inp) (GetPitchAngleReferenceSignal inp) = Some (pitch', uPitch)"
    and "UpdatePIDControl form period (YawCtrl ctrls)
             (GetYawAngle inp) (GetYawAngularRateReferenceSignal inp) = Some (yaw', uYaw)"
  shows "UpdatePIDControlSignals form period inp ctrls ctrlSignals
    = Some (ctrls\<lparr>RollCtrl := roll', PitchCtrl := pitch', YawCtrl := yaw'\<rparr>,
            \<lparr>Thrust = Thrust ctrlSignals, RollMoment = uRoll, PitchMoment = uPitch,
             YawMoment = uYaw\<rparr>)"
  using assms by (simp add: UpdatePIDControlSignals_def)

text \<open>Three unit controllers at state 0 and reference 1/2.\<close>

theorem UpdatePIDControlSignals_assigns_moments_witness:
  "UpdatePIDControl PID_USE_PARALLEL_FORM 10 unit_controller 0 (1 / 2)
     = Some (unit_controller\<lparr>P := 1 / 2, preRef := 1 / 2\<rparr>, 1 / 2)
   \<and> UpdatePIDControlSignals PID_USE_PARALLEL_FORM 10
        \<lparr>GetRollAngle = 0, GetRollAngleReferenceSignal = 1 / 2, GetPitchAngle = 0,
         GetPitchAngleReferenceSignal = 1 / 2, GetYawAngle = 0,
         GetYawAngularRateReferenceSignal = 1 / 2\<rparr>
        \<lparr>AltCtrl = unit_controller, RollCtrl = unit_controller,
         PitchCtrl = unit_controller, YawCtrl = unit_controller\<rparr>
        \<lparr>Thrust = 3, RollMoment = 0, PitchMoment = 0, YawMoment = 0\<rparr>
     = Some (\<lparr>AltCtrl = unit_controller,
              RollCtrl = unit_controller\<lparr>P := 1 / 2, preRef := 1 / 2\<rparr>,
              PitchCtrl = unit_controller\<lparr>P := 1 / 2, preRef := 1 / 2\<rparr>,
              YawCtrl = unit_controller\<lparr>P := 1 / 2, preRef := 1 / 2\<rparr>\<rparr>,
             \<lparr>Thrust = 3, RollMoment = 1 / 2, PitchMoment = 1 / 2, YawMoment = 1 / 2\<rparr>)"
proof -
  have u: "UpdatePIDControl PID_USE_PARALLEL_FORM 10 unit_controller 0 (1 / 2)
     = Some (unit_controller\<lparr>P := 1 / 2, preRef := 1 / 2\<rparr>, 1 / 2)"
    by (simp add: pid_defs unit_controller_def Let_def)
  show ?thesis
    using u UpdatePIDControlSignals_assigns_moments [of PID_USE_PARALLEL_FORM 10
        "\<lparr>AltCtrl = unit_controller, RollCtrl = unit_controller,
         PitchCtrl = unit_controller, YawCtrl = unit_controller\<rparr>"
        "\<lparr>GetRollAngle = 0, GetRollAngleReferenceSignal = 1 / 2, GetPitchAngle = 0,
         GetPitchAngleReferenceSignal = 1 / 2, GetYawAngle = 0,
         GetYawAngularRateReferenceSignal = 1 / 2\<rparr>"
        "unit_controller\<lparr>P := 1 / 2, preRef := 1 / 2\<rparr>" "1 / 2"
        "unit_controller\<lparr>P := 1 / 2, preRef := 1 / 2\<rparr>" "1 / 2"
        "unit_controller\<lparr>P := 1 / 2, preRef := 1 / 2\<rparr>" "1 / 2"
        "\<lparr>Thrust = 3, RollMoment = 0, PitchMoment = 0, YawMoment = 0\<rparr>"]
    by simp
qed

section \<open>Properties of the rotation transformation\<close>

subsection \<open>The direction cosine matrix\<close>

lemma upt_3: "[0..<3] = [0, 1, 2]"
  by (simp add: upt_rec)

lemma transpose3_literal:
  "transpose3 [a0, a1, a2, a3, a4, a5, a6, a7, a8] = [a0, a3, a6, a1, a4, a7, a2, a5, a8]"
  by (simp add: transpose3_def)

lemma product3_literal:
  "product3 [a0, a1, a2, a3, a4, a5, a6, a7, a8] [b0, b1, b2, b3, b4, b5, b6, b7, b8] =
     [a0 * b0 + a1 * b3 + a2 * b6, a0 * b1 + a1 * b4 + a2 * b7, a0 * b2 + a1 * b5 + a2 * b8,
      a3 * b0 + a4 * b3 + a5 * b6, a3 * b1 + a4 * b4 + a5 * b7, a3 * b2 + a4 * b5 + a5 * b8,
      a6 * b0 + a7 * b3 + a8 * b6, a6 * b1 + a7 * b4 + a8 * b7, a6 * b2 + a7 * b5 + a8 * b8]"
  by (simp add: product3_def)

text \<open>The rows of the matrix are orthonormal: polynomial identities in the sines and cosines.\<close>

lemma rows_orthonormal:
  fixes cr sr cp sp cy sy :: real
  assumes r: "sr\<^sup>2 + cr\<^sup>2 = 1" and p: "sp\<^sup>2 + cp\<^sup>2 = 1" and y: "sy\<^sup>2 + cy\<^sup>2 = 1"
  shows "cp * cy * (cp * cy) + cp * sy * (cp * sy) + - sp * - sp = 1"
    and "cp * cy * (- cr * sy + sr * sp * cy) + cp * sy * (cr * cy + sr * sp * sy)
          + - sp * (sr * cp) = 0"
    and "cp * cy * (sr * sy + cr * sp * cy) + cp * sy * (- sr * cy + cr * sp * sy)
          + - sp * (cr * cp) = 0"
    and "(- cr * sy + sr * sp * cy) * (- cr * sy + sr * sp * cy)
          + (cr * cy + sr * sp * sy) * (cr * cy + sr * sp * sy) + sr * cp * (sr * cp) = 1"
    and "(- cr * sy + sr * sp * cy) * (sr * sy + cr * sp * cy)
          + (cr * cy + sr * sp * sy) * (- sr * cy + cr * sp * sy) + sr * cp * (cr * cp) = 0"
    and "(sr * sy + cr * sp * cy) * (sr * sy + cr * sp * cy)
          + (- sr * cy + cr * sp * sy) * (- sr * cy + cr * sp * sy) + cr * cp * (cr * cp) = 1"
  using r p y by algebra+

text \<open>In real arithmetic the array \<^verbatim>\<open>DCMUpdate\<close> holds an orthonormal matrix.\<close>

lemma DCMUpdate_orthonormal:
  "product3 (DCMUpdate roll pitch yaw) (transpose3 (DCMUpdate roll pitch yaw)) = identity3"
proof -
  have r: "(sin roll)\<^sup>2 + (cos roll)\<^sup>2 = 1" and p: "(sin pitch)\<^sup>2 + (cos pitch)\<^sup>2 = 1"
    and y: "(sin yaw)\<^sup>2 + (cos yaw)\<^sup>2 = 1" by simp_all
  note o = rows_orthonormal [OF r p y]
  have s: "a * b + c * d + e * f = b * a + d * c + f * e" for a b c d e f :: real by simp
  show ?thesis
    unfolding DCMUpdate_def identity3_def
    apply (simp only: transpose3_literal product3_literal list.inject simp_thms)
    apply (intro conjI)
            apply (rule o(1))
           apply (rule o(2))
          apply (rule o(3))
         apply (rule trans [OF s o(2)])
        apply (rule o(4))
       apply (rule o(5))
      apply (rule trans [OF s o(3)])
     apply (rule trans [OF s o(5)])
    apply (rule o(6))
    done
qed

text \<open>
  The transposition of a 3x3 source into a destination array of nine cells, both alive
  and distinct.
\<close>

lemma trans_loop_3x3:
  assumes "m DCMUpdate_array = Some [a0, a1, a2, a3, a4, a5, a6, a7, a8]"
    and "m DCMInvInit_array = Some [b0, b1, b2, b3, b4, b5, b6, b7, b8]"
  shows "trans_loop [(0, 0), (0, 1), (0, 2), (1, 0), (1, 1), (1, 2), (2, 0), (2, 1), (2, 2)]
           (Some DCMUpdate_array) (Some DCMInvInit_array) 3 3 m
         = Some (m(DCMInvInit_array \<mapsto> [a0, a3, a6, a1, a4, a7, a2, a5, a8]))"
  using assms by (simp add: load_cell_def store_cell_def)

lemma index_pairs_3x3:
  "concat (map (\<lambda>i. map (\<lambda>j. (i, j)) [0..<3]) [0..<3])
     = [(0, 0), (0, 1), (0, 2), (1, 0), (1, 1), (1, 2), (2, 0), (2, 1), (2, 2)]"
  by (simp add: upt_3)

text \<open>
  While the destination array is alive (as it is inside \<^verbatim>\<open>InitRotationMatrix\<close>), the
  call stores the transpose of \<^verbatim>\<open>DCMUpdate\<close> in it; \<^verbatim>\<open>DCMUpdate\<close> itself is gone at
  the return.
\<close>

lemma UpdateRotationMatrix_live:
  assumes "DCMInv s = \<lparr>numRows = 3, numCols = 3, pData = Some DCMInvInit_array\<rparr>"
    and "memory s DCMInvInit_array = Some [b0, b1, b2, b3, b4, b5, b6, b7, b8]"
  shows "\<exists>s'. UpdateRotationMatrix chk roll pitch yaw s = Some s'
      \<and> DCM s' = \<lparr>numRows = 3, numCols = 3, pData = Some DCMUpdate_array\<rparr>
      \<and> DCMInv s' = DCMInv s
      \<and> memory s' DCMInvInit_array = Some (transpose3 (DCMUpdate roll pitch yaw))
      \<and> memory s' DCMUpdate_array = None"
proof -
  let ?m1 = "(memory s)(DCMUpdate_array \<mapsto> DCMUpdate roll pitch yaw)"
  have a: "?m1 DCMUpdate_array =
      Some [cos pitch * cos yaw, cos pitch * sin yaw, - sin pitch,
        - cos roll * sin yaw + sin roll * sin pitch * cos yaw,
        cos roll * cos yaw + sin roll * sin pitch * sin yaw, sin roll * cos pitch,
        sin roll * sin yaw + cos roll * sin pitch * cos yaw,
        - sin roll * cos yaw + cos roll * sin pitch * sin yaw, cos roll * cos pitch]"
    by (simp add: DCMUpdate_def)
  have b: "?m1 DCMInvInit_array = Some [b0, b1, b2, b3, b4, b5, b6, b7, b8]"
    using assms(2) by simp
  have e: "[cos pitch * cos yaw,
        - cos roll * sin yaw + sin roll * sin pitch * cos yaw,
        sin roll * sin yaw + cos roll * sin pitch * cos yaw,
        cos pitch * sin yaw,
        cos roll * cos yaw + sin roll * sin pitch * sin yaw,
        - sin roll * cos yaw + cos roll * sin pitch * sin yaw,
        - sin pitch, sin roll * cos pitch, cos roll * cos pitch]
      = transpose3 (DCMUpdate roll pitch yaw)"
    by (simp only: DCMUpdate_def transpose3_literal)
  have "arm_mat_trans_f32 chk (arm_mat_init_f32 (DCM s) 3 3 (Some DCMUpdate_array))
        (DCMInv s) ?m1
      = trans_loop [(0, 0), (0, 1), (0, 2), (1, 0), (1, 1), (1, 2), (2, 0), (2, 1), (2, 2)]
          (Some DCMUpdate_array) (Some DCMInvInit_array) 3 3 ?m1"
    by (simp add: arm_mat_trans_f32_def arm_mat_init_f32_def assms(1) index_pairs_3x3)
  also have "\<dots> = Some (?m1(DCMInvInit_array \<mapsto> transpose3 (DCMUpdate roll pitch yaw)))"
    unfolding e [symmetric] by (rule trans_loop_3x3 [OF a b])
  finally have t: "arm_mat_trans_f32 chk (arm_mat_init_f32 (DCM s) 3 3 (Some DCMUpdate_array))
        (DCMInv s) ?m1
      = Some (?m1(DCMInvInit_array \<mapsto> transpose3 (DCMUpdate roll pitch yaw)))" .
  show ?thesis
    unfolding UpdateRotationMatrix_def Let_def t
    by (simp add: arm_mat_init_f32_def)
qed

text \<open>
  A destination pointer that is \<^verbatim>\<open>NULL\<close> or refers to an array whose lifetime has
  ended: the first store of the transposition is undefined behaviour.
\<close>

lemma UpdateRotationMatrix_dangling:
  assumes "numRows (DCMInv s) = 3" "numCols (DCMInv s) = 3"
    and "pData (DCMInv s) = None
         \<or> pData (DCMInv s) = Some DCMInvInit_array \<and> memory s DCMInvInit_array = None"
  shows "UpdateRotationMatrix chk roll pitch yaw s = None"
  using assms
  by (auto simp: UpdateRotationMatrix_def arm_mat_trans_f32_def arm_mat_init_f32_def
      index_pairs_3x3 load_cell_def store_cell_def DCMUpdate_def Let_def)

lemma InitRotationMatrix_result:
  "\<exists>s'. InitRotationMatrix chk s = Some s'
     \<and> DCM s' = \<lparr>numRows = 3, numCols = 3, pData = Some DCMUpdate_array\<rparr>
     \<and> DCMInv s' = \<lparr>numRows = 3, numCols = 3, pData = Some DCMInvInit_array\<rparr>
     \<and> memory s' DCMUpdate_array = None
     \<and> memory s' DCMInvInit_array = None"
proof -
  let ?s1 = "s\<lparr>DCMInv := arm_mat_init_f32 (DCMInv s) 3 3 (Some DCMInvInit_array),
                 memory := (memory s)(DCMInvInit_array \<mapsto> DCMInvInit)\<rparr>"
  have d: "DCMInv ?s1 = \<lparr>numRows = 3, numCols = 3, pData = Some DCMInvInit_array\<rparr>"
    by (simp add: arm_mat_init_f32_def)
  have m: "memory ?s1 DCMInvInit_array = Some [1, 0, 1, 0, 1, 0, 0, 0, 1]"
    by (simp add: DCMInvInit_def)
  from UpdateRotationMatrix_live [OF d m, of chk 0 0 0] obtain s2 where
    u: "UpdateRotationMatrix chk 0 0 0 ?s1 = Some s2"
    and p: "DCM s2 = \<lparr>numRows = 3, numCols = 3, pData = Some DCMUpdate_array\<rparr>"
      "DCMInv s2 = DCMInv ?s1" "memory s2 DCMUpdate_array = None"
    by blast
  show ?thesis
    unfolding InitRotationMatrix_def Let_def u
    using p d by simp
qed

text \<open>
  Before \<^verbatim>\<open>InitRotationMatrix\<close> returns, the array \<^verbatim>\<open>DCMInvInit\<close> holds the identity
  matrix: the transposition has overwritten the initialiser.
\<close>

lemma InitRotationMatrix_before_return:
  "\<exists>s2. UpdateRotationMatrix chk 0 0 0
          (s\<lparr>DCMInv := arm_mat_init_f32 (DCMInv s) 3 3 (Some DCMInvInit_array),
             memory := (memory s)(DCMInvInit_array \<mapsto> DCMInvInit)\<rparr>) = Some s2
     \<and> memory s2 DCMInvInit_array = Some identity3"
proof -
  let ?s1 = "s\<lparr>DCMInv := arm_mat_init_f32 (DCMInv s) 3 3 (Some DCMInvInit_array),
                 memory := (memory s)(DCMInvInit_array \<mapsto> DCMInvInit)\<rparr>"
  have d: "DCMInv ?s1 = \<lparr>numRows = 3, numCols = 3, pData = Some DCMInvInit_array\<rparr>"
    by (simp add: arm_mat_init_f32_def)
  have m: "memory ?s1 DCMInvInit_array = Some [1, 0, 1, 0, 1, 0, 0, 0, 1]"
    by (simp add: DCMInvInit_def)
  have i: "transpose3 (DCMUpdate 0 0 0) = identity3"
    by (simp add: DCMUpdate_def transpose3_literal identity3_def)
  from UpdateRotationMatrix_live [OF d m, of chk 0 0 0] show ?thesis
    unfolding i by blast
qed

text \<open>
  C7 (the code departs from the claim). The claim: after \<^verbatim>\<open>InitRotationMatrix\<close>
  returns, the DCM and its inverse are the 3x3 identity matrix. The code, from every
  state: the call returns with \<open>DCM.pData\<close> pointing at the array \<^verbatim>\<open>DCMUpdate\<close> and
  \<open>DCMInv.pData\<close> at the array \<^verbatim>\<open>DCMInvInit\<close>, both automatic arrays whose lifetime has
  ended, so that neither struct has a matrix to read.
\<close>

theorem InitRotationMatrix_dangling:
  "\<exists>s'. InitRotationMatrix chk s = Some s'
     \<and> pData (DCM s') = Some DCMUpdate_array
     \<and> pData (DCMInv s') = Some DCMInvInit_array
     \<and> memory s' DCMUpdate_array = None
     \<and> memory s' DCMInvInit_array = None
     \<and> matrix_data s' (DCM s') = None
     \<and> matrix_data s' (DCMInv s') = None"
proof -
  from InitRotationMatrix_result [of chk s] obtain s' where
    "InitRotationMatrix chk s = Some s'"
    "DCM s' = \<lparr>numRows = 3, numCols = 3, pData = Some DCMUpdate_array\<rparr>"
    "DCMInv s' = \<lparr>numRows = 3, numCols = 3, pData = Some DCMInvInit_array\<rparr>"
    "memory s' DCMUpdate_array = None" "memory s' DCMInvInit_array = None"
    by blast
  then show ?thesis by (simp add: matrix_data_def)
qed

text \<open>
  C6 (the code departs from the claim). The claim: after every call to
  \<^verbatim>\<open>UpdateRotationMatrix\<close> the stored \<open>DCMInv\<close> is the transpose of the stored \<open>DCM\<close>
  and their product is the identity. The code: a call before
  \<^verbatim>\<open>InitRotationMatrix\<close> writes the transpose through the \<^verbatim>\<open>NULL\<close> pointer of the
  zero-initialised \<open>DCMInv\<close>, and a call after \<^verbatim>\<open>InitRotationMatrix\<close> has returned
  writes it through the pointer to the dead array \<^verbatim>\<open>DCMInvInit\<close>: undefined behaviour
  for all angles.
\<close>

theorem UpdateRotationMatrix_undefined:
  "UpdateRotationMatrix False roll pitch yaw rotation_start = None
   \<and> (\<exists>s1. InitRotationMatrix chk rotation_start = Some s1
         \<and> UpdateRotationMatrix chk roll pitch yaw s1 = None)"
proof
  show "UpdateRotationMatrix False roll pitch yaw rotation_start = None"
    by (simp add: UpdateRotationMatrix_def arm_mat_trans_f32_def arm_mat_init_f32_def
        index_pairs_3x3 load_cell_def store_cell_def DCMUpdate_def Let_def rotation_start_def)
next
  from InitRotationMatrix_result [of chk rotation_start] obtain s1 where
    i: "InitRotationMatrix chk rotation_start = Some s1"
    and d: "DCMInv s1 = \<lparr>numRows = 3, numCols = 3, pData = Some DCMInvInit_array\<rparr>"
    and m: "memory s1 DCMInvInit_array = None"
    by blast
  have "UpdateRotationMatrix chk roll pitch yaw s1 = None"
    by (rule UpdateRotationMatrix_dangling) (simp_all add: d m)
  with i show "\<exists>s1. InitRotationMatrix chk rotation_start = Some s1
         \<and> UpdateRotationMatrix chk roll pitch yaw s1 = None"
    by blast
qed

subsection \<open>Normalisation\<close>

lemma dot_scale:
  "arm_dot_prod_f32 (arm_scale_f32 src k) (arm_scale_f32 src k)
     = k * k * arm_dot_prod_f32 src src"
  by (cases src) (simp add: arm_dot_prod_f32_def arm_scale_f32_def algebra_simps)

lemma normalize_in_range:
  assumes lo: "1 / 2 ^ 126 \<le> arm_dot_prod_f32 src src"
    and hi: "arm_dot_prod_f32 src src \<le> 2 ^ 127"
  shows "Vector3DNormalize src = Finite (arm_scale_f32 src (1 / sqrt (arm_dot_prod_f32 src src)))"
    and "arm_dot_prod_f32 (arm_scale_f32 src (1 / sqrt (arm_dot_prod_f32 src src)))
           (arm_scale_f32 src (1 / sqrt (arm_dot_prod_f32 src src))) = 1"
proof -
  let ?d = "arm_dot_prod_f32 src src"
  have small: "(1::real) / 2 ^ 150 \<le> 1 / 2 ^ 126" by simp
  have big: "(2::real) ^ 127 < 2 ^ 129" by simp
  have a: "\<not> ?d < 1 / 2 ^ 150" using lo small by linarith
  have b: "\<not> 2 ^ 129 \<le> ?d" using hi big by linarith
  show "Vector3DNormalize src = Finite (arm_scale_f32 src (1 / sqrt ?d))"
    unfolding Vector3DNormalize_def Let_def using a b lo hi by (simp only: if_False if_True simp_thms)
  have "(0::real) < 1 / 2 ^ 126" by simp
  then have d: "0 < ?d" using lo by linarith
  have "1 / sqrt ?d * (1 / sqrt ?d) * ?d = ?d / (sqrt ?d * sqrt ?d)" by simp
  also have "\<dots> = 1" using d by simp
  finally show "arm_dot_prod_f32 (arm_scale_f32 src (1 / sqrt ?d))
      (arm_scale_f32 src (1 / sqrt ?d)) = 1"
    by (simp only: dot_scale)
qed

text \<open>
  C4 (amended). \<^verbatim>\<open>Vector3DNormalize\<close> has no check of the norm and substitutes no
  fallback: for the all-zero source vector it divides by the zero norm and the
  destination is not finite (NaN in every component). For every source vector whose
  squared 2-norm lies in the normal float32 range \<open>[2^-126, 2^127]\<close> the destination is
  the source scaled by \<open>1 / norm\<close> and has 2-norm 1 (up to rounding).
\<close>

theorem Vector3DNormalize_unit:
  "Vector3DNormalize (0, 0, 0) = NotFinite
   \<and> (1 / 2 ^ 126 \<le> arm_dot_prod_f32 src src \<and> arm_dot_prod_f32 src src \<le> 2 ^ 127 \<longrightarrow>
        (\<exists>dst. Vector3DNormalize src = Finite dst
           \<and> dst = arm_scale_f32 src (1 / sqrt (arm_dot_prod_f32 src src))
           \<and> sqrt (arm_dot_prod_f32 dst dst) = 1))"
proof
  show "Vector3DNormalize (0, 0, 0) = NotFinite"
    by (simp add: Vector3DNormalize_def arm_dot_prod_f32_def)
next
  show "1 / 2 ^ 126 \<le> arm_dot_prod_f32 src src \<and> arm_dot_prod_f32 src src \<le> 2 ^ 127 \<longrightarrow>
        (\<exists>dst. Vector3DNormalize src = Finite dst
           \<and> dst = arm_scale_f32 src (1 / sqrt (arm_dot_prod_f32 src src))
           \<and> sqrt (arm_dot_prod_f32 dst dst) = 1)"
    using normalize_in_range [of src] by simp
qed

lemma sqrt_25: "sqrt 25 = 5"
  by (rule real_sqrt_unique) simp_all

text \<open>The vector \<open>(3, 0, 4)\<close> of norm 5 is normalised to \<open>(3/5, 0, 4/5)\<close>.\<close>

theorem Vector3DNormalize_unit_witness:
  "1 / 2 ^ 126 \<le> arm_dot_prod_f32 (3, 0, 4) (3, 0, 4)
   \<and> arm_dot_prod_f32 (3, 0, 4) (3, 0, 4) \<le> 2 ^ 127
   \<and> Vector3DNormalize (3, 0, 4) = Finite (3 / 5, 0, 4 / 5)
   \<and> sqrt (arm_dot_prod_f32 (3 / 5, 0, 4 / 5) (3 / 5, 0, 4 / 5)) = 1"
proof -
  have d: "arm_dot_prod_f32 (3, 0, 4) (3, 0, 4) = 25" by (simp add: arm_dot_prod_f32_def)
  have r: "1 / 2 ^ 126 \<le> arm_dot_prod_f32 (3, 0, 4) (3, 0, 4)"
    "arm_dot_prod_f32 (3, 0, 4) (3, 0, 4) \<le> 2 ^ 127"
    unfolding d by simp_all
  have s: "arm_scale_f32 (3, 0, 4) (1 / sqrt (arm_dot_prod_f32 (3, 0, 4) (3, 0, 4)))
      = (3 / 5, 0, 4 / 5)"
    unfolding d sqrt_25 by (simp add: arm_scale_f32_def)
  from Vector3DNormalize_unit [of "(3, 0, 4)"] r obtain dst where
    n: "Vector3DNormalize (3, 0, 4) = Finite dst"
    and e: "dst = arm_scale_f32 (3, 0, 4) (1 / sqrt (arm_dot_prod_f32 (3, 0, 4) (3, 0, 4)))"
    and u: "sqrt (arm_dot_prod_f32 dst dst) = 1"
    by blast
  have "dst = (3 / 5, 0, 4 / 5)" using e s by (rule trans)
  with n u r show ?thesis by (simp only: simp_thms)
qed

text \<open>
  C4, as stated, fails. There is no fallback: for the all-zero source vector the
  destination is not finite. Nor is every nonzero source vector scaled to unit norm: the
  squares of \<open>(10^-30, 0, 0)\<close> underflow to a zero norm and the destination is not finite,
  the square of \<open>(10^30, 0, 0)\<close> overflows to an infinite norm and the destination is the
  zero vector.
\<close>

theorem Vector3DNormalize_zero_not_finite:
  "Vector3DNormalize (0, 0, 0) = NotFinite
   \<and> Vector3DNormalize (1 / 10 ^ 30, 0, 0) = NotFinite
   \<and> Vector3DNormalize (10 ^ 30, 0, 0) = Finite (0, 0, 0)"
  by (simp add: Vector3DNormalize_def arm_dot_prod_f32_def arm_scale_f32_def)

subsection \<open>Attitude from the magnetometer\<close>

lemma sqrt3_sq: "sqrt 3 * sqrt 3 = 3"
  by simp

lemma body_reading_yaw_60:
  "rotate3 (DCMUpdate 0 0 (pi / 3)) (1, 0, 0) = (1 / 2, - (sqrt 3 / 2), 0)"
  by (simp add: rotate3_def DCMUpdate_def cos_60 sin_60)

lemma normalize_body_yaw_60:
  "Vector3DNormalize (1 / 2, - (sqrt 3 / 2), 0) = Finite (1 / 2, - (sqrt 3 / 2), 0)"
proof -
  have d: "arm_dot_prod_f32 (1 / 2, - (sqrt 3 / 2), 0) (1 / 2, - (sqrt 3 / 2), 0) = 1"
    by (simp add: arm_dot_prod_f32_def)
  have r: "1 / 2 ^ 126 \<le> arm_dot_prod_f32 (1 / 2, - (sqrt 3 / 2), 0) (1 / 2, - (sqrt 3 / 2), 0)"
    "arm_dot_prod_f32 (1 / 2, - (sqrt 3 / 2), 0) (1 / 2, - (sqrt 3 / 2), 0) \<le> 2 ^ 127"
    unfolding d by simp_all
  show ?thesis
    unfolding normalize_in_range(1) [OF r] d by (simp add: arm_scale_f32_def)
qed

lemma normalize_x_axis: "Vector3DNormalize (1, 0, 0) = Finite (1, 0, 0)"
proof -
  have d: "arm_dot_prod_f32 (1, 0, 0) (1, 0, 0) = 1"
    by (simp add: arm_dot_prod_f32_def)
  have r: "1 / 2 ^ 126 \<le> arm_dot_prod_f32 (1, 0, 0) (1, 0, 0)"
    "arm_dot_prod_f32 (1, 0, 0) (1, 0, 0) \<le> 2 ^ 127"
    unfolding d by simp_all
  show ?thesis
    unfolding normalize_in_range(1) [OF r] d by (simp add: arm_scale_f32_def)
qed

text \<open>
  C2 (the code departs from the claim). The claim: if the body readings are the inertial
  vector rotated by the rotation with the angles (roll, pitch, yaw), then
  \<^verbatim>\<open>GetAttitudeFromMagnetometer\<close> returns those angles. The code at roll = pitch = 0,
  yaw = \<open>\<pi>/3\<close> and the inertial vector \<open>(1, 0, 0)\<close>: the readings are
  \<open>(1/2, -\<surd>3/2, 0)\<close>, the cross product \<open>(0, 0, \<surd>3/2)\<close> is used as the rotation axis
  without being normalised, and the result is \<open>(0, 0, arctan (-3/2))\<close>, a negative yaw,
  not \<open>(0, 0, \<pi>/3)\<close>.
\<close>

theorem attitude_roundtrip_fails:
  "GetAttitudeFromMagnetometer (rotate3 (DCMUpdate 0 0 (pi / 3)) (1, 0, 0)) (1, 0, 0)
     = Finite (0, 0, arctan (- (3 / 2)))
   \<and> arctan (- (3 / 2)) < 0 \<and> 0 < pi / 3"
proof -
  have m: "\<bar>1 / 2 :: real\<bar> \<le> 1 - rounding_margin" "\<bar>0 :: real\<bar> \<le> 1 - rounding_margin"
    by (simp_all add: rounding_margin_def)
  have c: "Vector3DCrossProduct (1 / 2, - (sqrt 3 / 2), 0) (1, 0, 0) = (0, 0, sqrt 3 / 2)"
    by (simp add: Vector3DCrossProduct_def)
  have d: "arm_dot_prod_f32 (1 / 2, - (sqrt 3 / 2), 0) (1, 0, 0) = 1 / 2"
    by (simp add: arm_dot_prod_f32_def)
  have ac: "facos (1 / 2) = Finite (pi / 3)"
    using m(1) by (simp add: facos_def)
  have as: "fasin 0 = Finite 0"
    using m(2) by (simp add: fasin_def)
  have roll: "fatan2 0 (7 / 8) = Finite 0"
    by (simp add: fatan2_def atan2_def rounding_margin_def)
  have yaw: "fatan2 (- (3 / 4)) (1 / 2) = Finite (arctan (- (3 / 2)))"
    by (simp add: fatan2_def atan2_def rounding_margin_def)
  have "GetAttitudeFromMagnetometer (1 / 2, - (sqrt 3 / 2), 0) (1, 0, 0)
      = Finite (0, 0, arctan (- (3 / 2)))"
    unfolding GetAttitudeFromMagnetometer_def normalize_body_yaw_60 normalize_x_axis
    by (simp add: bind_float_def c d ac cos_60 sin_60 as roll yaw Let_def)
  then show ?thesis
    by (simp add: body_reading_yaw_60)
qed

section \<open>Properties of the motor control\<close>

text \<open>
  Called by another task than the one the handle refers to, the function behaves as its
  header comment says.
\<close>

lemma StopMotorControlSamplingTask_other_caller:
  assumes "caller \<noteq> h"
  shows "StopMotorControlSamplingTask caller (s\<lparr>MotorControlPrintSamplingTaskHandle := Some h\<rparr>)
      = Returns (s\<lparr>kernel_tasks := kernel_tasks s - {h},
                   MotorControlPrintSamplingTaskHandle := None\<rparr>) MOTORCTRL_OK"
    and "StopMotorControlSamplingTask caller (s\<lparr>MotorControlPrintSamplingTaskHandle := None\<rparr>)
      = Returns (s\<lparr>MotorControlPrintSamplingTaskHandle := None\<rparr>) MOTORCTRL_ERROR"
  using assms by (simp_all add: StopMotorControlSamplingTask_def vTaskDelete_def)

text \<open>
  C9 (the code departs from the claim). The claim: with a non-NULL handle at entry the
  function deletes the task, sets the handle to NULL and returns \<open>MOTORCTRL_OK\<close>. The
  code, called by the sampling task itself (its only call in the sources, from
  \<^verbatim>\<open>MotorControlPrintSamplingTask\<close>): \<^verbatim>\<open>vTaskDelete\<close> deletes the running task and
  does not return, so the handle keeps the deleted task and nothing is returned.
\<close>

theorem StopMotorControlSamplingTask_self:
  "StopMotorControlSamplingTask h (s\<lparr>MotorControlPrintSamplingTaskHandle := Some h\<rparr>)
     = NoReturn (s\<lparr>kernel_tasks := kernel_tasks s - {h},
                   MotorControlPrintSamplingTaskHandle := Some h\<rparr>)"
  by (simp add: StopMotorControlSamplingTask_def vTaskDelete_def)

lemma ccrVal_unat:
  fixes mn mx :: "32 word" and v :: "16 word"
  assumes le: "mn \<le> mx" and ex: "65535 * (unat mx - unat mn) < 2 ^ 32"
  shows "unat (ccrVal mn mx v) = unat mn + unat v * (unat mx - unat mn) div 65535"
    and "unat v * (unat mx - unat mn) div 65535 \<le> unat mx - unat mn"
proof -
  have v16: "unat v < 2 ^ 16" using unsigned_less [of v, where 'a = nat] by simp
  then have v: "unat v \<le> 65535" by simp
  have d: "unat (mx - mn) = unat mx - unat mn" using le by (simp add: unat_sub)
  have uv: "unat (ucast v :: 32 word) = unat v"
    using v16 by (simp add: unsigned_ucast_eq take_bit_nat_eq_self)
  have "unat v * (unat mx - unat mn) \<le> 65535 * (unat mx - unat mn)"
    using v by (rule mult_le_mono1)
  then have lt: "unat v * (unat mx - unat mn) < 2 ^ 32" using ex by linarith
  then have m: "unat (ucast v * (mx - mn) :: 32 word) = unat v * (unat mx - unat mn)"
    using unat_mult_lem [of "ucast v :: 32 word" "mx - mn"] by (simp add: uv d)
  have q: "unat ((ucast v * (mx - mn)) div (65535 :: 32 word))
      = unat v * (unat mx - unat mn) div 65535"
    by (simp add: unat_div m)
  show qb: "unat v * (unat mx - unat mn) div 65535 \<le> unat mx - unat mn"
  proof -
    have "unat v * (unat mx - unat mn) div 65535 \<le> 65535 * (unat mx - unat mn) div 65535"
      using v by (intro div_le_mono mult_le_mono1)
    then show ?thesis by simp
  qed
  have mxb: "unat mx < 2 ^ 32" using unsigned_less [of mx, where 'a = nat] by simp
  have mm: "unat mn \<le> unat mx" using le by (simp add: word_le_nat_alt)
  have "unat mn + unat v * (unat mx - unat mn) div 65535 < 2 ^ 32"
    using qb mxb mm by linarith
  then have "unat (mn + (ucast v * (mx - mn)) div 65535)
      = unat mn + unat v * (unat mx - unat mn) div 65535"
    using unat_add_lem [of mn "(ucast v * (mx - mn)) div 65535"] by (simp add: q)
  then show "unat (ccrVal mn mx v) = unat mn + unat v * (unat mx - unat mn) div 65535"
    by (simp add: ccrVal_def)
qed

lemma ccrVal_range:
  fixes mn mx :: "32 word" and v :: "16 word"
  assumes le: "mn \<le> mx" and ex: "65535 * (unat mx - unat mn) < 2 ^ 32"
  shows "mn \<le> ccrVal mn mx v" and "ccrVal mn mx v \<le> mx"
proof -
  have mm: "unat mn \<le> unat mx" using le by (simp add: word_le_nat_alt)
  show "mn \<le> ccrVal mn mx v"
    by (simp add: word_le_nat_alt ccrVal_unat(1) [OF le ex])
  show "ccrVal mn mx v \<le> mx"
    using ccrVal_unat(2) [OF le ex, of v] mm
    by (simp add: word_le_nat_alt ccrVal_unat(1) [OF le ex])
qed

lemma ccrVal_mono:
  fixes mn mx :: "32 word" and v v' :: "16 word"
  assumes le: "mn \<le> mx" and ex: "65535 * (unat mx - unat mn) < 2 ^ 32" and vv: "v \<le> v'"
  shows "ccrVal mn mx v \<le> ccrVal mn mx v'"
proof -
  have "unat v \<le> unat v'" using vv by (simp add: word_le_nat_alt)
  then have "unat v * (unat mx - unat mn) div 65535 \<le> unat v' * (unat mx - unat mn) div 65535"
    by (intro div_le_mono mult_le_mono1)
  then show ?thesis
    by (simp add: word_le_nat_alt ccrVal_unat(1) [OF le ex])
qed

lemma cast16_id:
  fixes x :: "32 word"
  assumes "unat x < 65536"
  shows "(ucast (ucast x :: 16 word) :: 32 word) = x"
proof -
  have "unat (ucast (ucast x :: 16 word) :: 32 word) = unat x"
    using assms by (simp add: unsigned_ucast_eq unsigned_take_bit_eq take_bit_nat_eq_self)
  then show ?thesis by (rule word_unat_eq_iff [THEN iffD2])
qed

text \<open>
  C10. For every \<open>ctrlVal\<close> (a 16-bit value), each of \<^verbatim>\<open>SetMotor1\<close> to
  \<^verbatim>\<open>SetMotor4\<close> stores \<open>ctrlVal\<close> into its own field of \<open>MotorControlValues\<close> and
  leaves the other three fields unchanged; provided \<open>ESC_MIN_OUTPUT \<le> ESC_MAX_OUTPUT\<close>
  and the 32-bit arithmetic is exact (\<open>65535 * (ESC_MAX_OUTPUT - ESC_MIN_OUTPUT) < 2^32\<close>),
  the compare value is
  \<open>ESC_MIN_OUTPUT + ctrlVal * (ESC_MAX_OUTPUT - ESC_MIN_OUTPUT) div 65535\<close>, lies in
  \<open>[ESC_MIN_OUTPUT, ESC_MAX_OUTPUT]\<close> and is non-decreasing in \<open>ctrlVal\<close>.
  \<^verbatim>\<open>SetMotor2\<close> to \<^verbatim>\<open>SetMotor4\<close> write it to the compare register of their channel;
  \<^verbatim>\<open>SetMotor1\<close> writes its low 16 bits, the same value when
  \<open>ESC_MAX_OUTPUT < 65536\<close>.
\<close>

theorem SetMotor_compare_value:
  fixes ESC_MIN_OUTPUT ESC_MAX_OUTPUT :: "32 word" and ctrlVal ctrlVal' :: "16 word"
  assumes "ESC_MIN_OUTPUT \<le> ESC_MAX_OUTPUT"
    and "65535 * (unat ESC_MAX_OUTPUT - unat ESC_MIN_OUTPUT) < 2 ^ 32"
  shows "MotorControlValues (SetMotor1 ESC_MIN_OUTPUT ESC_MAX_OUTPUT ctrlVal s)
           = (MotorControlValues s)\<lparr>Motor1 := ctrlVal\<rparr>
    \<and> MotorControlValues (SetMotor2 ESC_MIN_OUTPUT ESC_MAX_OUTPUT ctrlVal s)
           = (MotorControlValues s)\<lparr>Motor2 := ctrlVal\<rparr>
    \<and> MotorControlValues (SetMotor3 ESC_MIN_OUTPUT ESC_MAX_OUTPUT ctrlVal s)
           = (MotorControlValues s)\<lparr>Motor3 := ctrlVal\<rparr>
    \<and> MotorControlValues (SetMotor4 ESC_MIN_OUTPUT ESC_MAX_OUTPUT ctrlVal s)
           = (MotorControlValues s)\<lparr>Motor4 := ctrlVal\<rparr>
    \<and> unat (ccrVal ESC_MIN_OUTPUT ESC_MAX_OUTPUT ctrlVal)
           = unat ESC_MIN_OUTPUT
             + unat ctrlVal * (unat ESC_MAX_OUTPUT - unat ESC_MIN_OUTPUT) div 65535
    \<and> ESC_MIN_OUTPUT \<le> ccrVal ESC_MIN_OUTPUT ESC_MAX_OUTPUT ctrlVal
    \<and> ccrVal ESC_MIN_OUTPUT ESC_MAX_OUTPUT ctrlVal \<le> ESC_MAX_OUTPUT
    \<and> (ctrlVal \<le> ctrlVal' \<longrightarrow>
          ccrVal ESC_MIN_OUTPUT ESC_MAX_OUTPUT ctrlVal
            \<le> ccrVal ESC_MIN_OUTPUT ESC_MAX_OUTPUT ctrlVal')
    \<and> CCR (SetMotor2 ESC_MIN_OUTPUT ESC_MAX_OUTPUT ctrlVal s) MOTOR2_CHANNEL
           = ccrVal ESC_MIN_OUTPUT ESC_MAX_OUTPUT ctrlVal
    \<and> CCR (SetMotor3 ESC_MIN_OUTPUT ESC_MAX_OUTPUT ctrlVal s) MOTOR3_CHANNEL
           = ccrVal ESC_MIN_OUTPUT ESC_MAX_OUTPUT ctrlVal
    \<and> CCR (SetMotor4 ESC_MIN_OUTPUT ESC_MAX_OUTPUT ctrlVal s) MOTOR4_CHANNEL
           = ccrVal ESC_MIN_OUTPUT ESC_MAX_OUTPUT ctrlVal
    \<and> (unat ESC_MAX_OUTPUT < 65536 \<longrightarrow>
          CCR (SetMotor1 ESC_MIN_OUTPUT ESC_MAX_OUTPUT ctrlVal s) MOTOR1_CHANNEL
            = ccrVal ESC_MIN_OUTPUT ESC_MAX_OUTPUT ctrlVal)"
proof -
  note r = ccrVal_range [OF assms, of ctrlVal]
  have c1: "unat ESC_MAX_OUTPUT < 65536 \<longrightarrow>
      (ucast (ucast (ccrVal ESC_MIN_OUTPUT ESC_MAX_OUTPUT ctrlVal) :: 16 word) :: 32 word)
        = ccrVal ESC_MIN_OUTPUT ESC_MAX_OUTPUT ctrlVal"
  proof
    assume "unat ESC_MAX_OUTPUT < 65536"
    moreover have "unat (ccrVal ESC_MIN_OUTPUT ESC_MAX_OUTPUT ctrlVal) \<le> unat ESC_MAX_OUTPUT"
      using r(2) by (simp add: word_le_nat_alt)
    ultimately have "unat (ccrVal ESC_MIN_OUTPUT ESC_MAX_OUTPUT ctrlVal) < 65536" by linarith
    then show "(ucast (ucast (ccrVal ESC_MIN_OUTPUT ESC_MAX_OUTPUT ctrlVal) :: 16 word) :: 32 word)
        = ccrVal ESC_MIN_OUTPUT ESC_MAX_OUTPUT ctrlVal"
      by (rule cast16_id)
  qed
  have m: "ctrlVal \<le> ctrlVal' \<longrightarrow>
          ccrVal ESC_MIN_OUTPUT ESC_MAX_OUTPUT ctrlVal
            \<le> ccrVal ESC_MIN_OUTPUT ESC_MAX_OUTPUT ctrlVal'"
    using ccrVal_mono [OF assms] by blast
  show ?thesis
    using r m c1 ccrVal_unat(1) [OF assms, of ctrlVal]
    by (simp add: SetMotor1_def SetMotor2_def SetMotor3_def SetMotor4_def
        HAL_TIM_SetCompare_def)
qed

text \<open>
  With \<open>ESC_MIN_OUTPUT\<close> = 24000 and \<open>ESC_MAX_OUTPUT\<close> = 48000: zero thrust gives the
  compare value 24000 and full thrust 48000.
\<close>

theorem SetMotor_compare_value_witness:
  "(24000 :: 32 word) \<le> 48000
   \<and> 65535 * (unat (48000 :: 32 word) - unat (24000 :: 32 word)) < (2 :: nat) ^ 32
   \<and> (0 :: 16 word) \<le> 65535
   \<and> unat (48000 :: 32 word) < 65536
   \<and> ccrVal 24000 48000 0 \<le> ccrVal 24000 48000 65535
   \<and> (24000 :: 32 word) \<le> ccrVal 24000 48000 65535
   \<and> ccrVal 24000 48000 65535 \<le> 48000
   \<and> unat (ccrVal 24000 48000 65535) = 48000
   \<and> Motor1 (MotorControlValues (SetMotor1 24000 48000 65535
        \<lparr>MotorControlValues = \<lparr>Motor1 = 0, Motor2 = 0, Motor3 = 0, Motor4 = 0\<rparr>,
         CCR = (\<lambda>_. 0), MotorControlPrintSamplingTaskHandle = None, kernel_tasks = {}\<rparr>))
       = 65535"
proof -
  have a: "(24000 :: 32 word) \<le> 48000" by simp
  have b: "65535 * (unat (48000 :: 32 word) - unat (24000 :: 32 word)) < (2 :: nat) ^ 32"
    by simp
  have c: "(0 :: 16 word) \<le> 65535" by simp
  have d: "unat (48000 :: 32 word) < 65536" by simp
  from SetMotor_compare_value [OF a b, of 65535
      "\<lparr>MotorControlValues = \<lparr>Motor1 = 0, Motor2 = 0, Motor3 = 0, Motor4 = 0\<rparr>,
        CCR = (\<lambda>_. 0), MotorControlPrintSamplingTaskHandle = None, kernel_tasks = {}\<rparr>" 65535]
    SetMotor_compare_value [OF a b, of 0
      "\<lparr>MotorControlValues = \<lparr>Motor1 = 0, Motor2 = 0, Motor3 = 0, Motor4 = 0\<rparr>,
        CCR = (\<lambda>_. 0), MotorControlPrintSamplingTaskHandle = None, kernel_tasks = {}\<rparr>" 65535]
  show ?thesis using a b c d by simp
qed

end
